theory Spec2Isabelle
  imports Complex_Main
begin

section \<open>The Comet callback of optuna-integration\<close>

text \<open>
  A shallow embedding of \<^verbatim>\<open>src/optuna_integration/comet.py\<close>: the class
  \<^verbatim>\<open>CometCallback\<close> with its constructor, its per-trial call, the two resolution
  methods and the decorator.

  The callback talks to two collaborators that are not part of the repository: the
  optimisation framework (study and trial objects) and the tracking client
  (\<^verbatim>\<open>comet_ml\<close>). Every call the source makes on either of them that has an effect is
  recorded, in program order, in the \<open>trace\<close> of the world; the few things the
  source reads back from them (an experiment's key, its \<^verbatim>\<open>ended\<close> flag, the default
  workspace) are fields of the world. The source catches no exception, so a failing
  remote call aborts the method; the functions below describe the invocations in which
  every remote call returns.
\<close>

subsection \<open>Data of the optimisation framework\<close>

text \<open>
  \<^verbatim>\<open>optuna.study.StudyDirection\<close>; the source only compares with \<^verbatim>\<open>MINIMIZE\<close>.
\<close>

datatype StudyDirection = NOT_SET | MINIMIZE | MAXIMIZE

text \<open>
  References to experiment objects of the tracking client (\<^verbatim>\<open>comet_ml.Experiment\<close>,
  \<^verbatim>\<open>comet_ml.ExistingExperiment\<close>) are numbers: object identity.
\<close>

type_synonym handle = nat

text \<open>
  A trial, with the attributes the source reads: \<^verbatim>\<open>number\<close>, \<^verbatim>\<open>params\<close>,
  \<^verbatim>\<open>values\<close> (absent or a sequence), \<^verbatim>\<open>value\<close>, and the attribute
  \<^verbatim>\<open>experiment\<close> that the decorator sets (the last three are \<open>trial_values\<close>,
  \<open>trial_value\<close> and \<open>trial_experiment\<close> here). The source never looks inside a parameter
  mapping or an objective value, so both are type parameters. Reading \<^verbatim>\<open>trial.value\<close>
  is reading a field: how the framework derives it from \<^verbatim>\<open>values\<close> is not in the
  repository.
\<close>

record ('p, 'v) trial =
  number :: int
  params :: 'p
  trial_values :: "'v list option"
  trial_value :: "'v option"
  trial_experiment :: "handle option"

text \<open>
  The user attributes of a study. The source reads and writes two reserved keys:
  \<^verbatim>\<open>"comet_study_experiment_key"\<close>, a string, and \<^verbatim>\<open>"trial_experiments"\<close>, a
  dictionary from trial numbers to experiment keys. \<^verbatim>\<open>user_attrs.get(k)\<close> is the
  field, \<open>None\<close> when the key is absent. What is read is a value: a later change of the
  callback's dictionary changes no attribute of the study, which only
  \<^verbatim>\<open>set_user_attr\<close> does.
\<close>

record user_attrs_dict =
  comet_study_experiment_key :: "string option"
  trial_experiments :: "(int \<rightharpoonup> string) option"

text \<open>
  A study, with the attributes the source reads: \<^verbatim>\<open>study_name\<close>, \<^verbatim>\<open>directions\<close>,
  \<^verbatim>\<open>direction\<close>, \<^verbatim>\<open>user_attrs\<close>, the name of the class of \<^verbatim>\<open>_storage\<close>, and
  \<^verbatim>\<open>best_trials\<close>.
\<close>

record ('p, 'v) study =
  study_name :: string
  directions :: "StudyDirection list"
  direction :: StudyDirection
  user_attrs :: user_attrs_dict
  storage_type_name :: string
  best_trials :: "('p, 'v) trial list"

subsection \<open>Calls on the collaborators\<close>

text \<open>The argument of \<^verbatim>\<open>log_other\<close> is a string or an integer in the source.\<close>

datatype other_value = OStr string | OInt int

text \<open>
  One constructor per effectful call of the source. An \<^verbatim>\<open>APIExperiment\<close> has no state
  that the source reads but its key, so calls on it name the key; calls on a trial's
  experiment name the object. The arguments are those of the call, in the order of the
  source: \<open>New_APIExperiment workspace project_name key\<close> (with the key of the new
  record), \<open>New_Experiment object workspace project_name\<close>,
  \<open>Log_optimization object optimization_id metric_name metric_value parameters objective\<close>,
  \<open>Set_user_attr key value\<close>.
\<close>

datatype ('p, 'v) event =
    Get_default_workspace
  | New_APIExperiment string "string option" string
  | Previous_APIExperiment string
  | Api_add_tag string string
  | Api_log_other string string other_value
  | Set_user_attr string string
  | New_Experiment handle string "string option"
  | Existing_Experiment handle string
  | Add_tag handle string
  | Log_other handle string other_value
  | Log_parameters handle 'p
  | Log_metric handle string 'v
  | Log_optimization handle string string "'v option" 'p StudyDirection
  | End_experiment handle

text \<open>
  The world outside the callback object: what the tracking service answers
  (\<open>default_workspace\<close>, and \<open>new_keys n\<close>, the key it gives to the \<open>n\<close>-th record
  it creates), the experiment objects of this process (\<open>next_obj\<close> of them, each with
  its key and its \<^verbatim>\<open>ended\<close> flag), the module attribute
  \<^verbatim>\<open>comet_ml.active_experiment\<close> (\<open>None\<close> when \<^verbatim>\<open>hasattr\<close> is false) and the calls
  made so far.
\<close>

record ('p, 'v) world =
  default_workspace :: string
  new_keys :: "nat \<Rightarrow> string"
  created :: nat
  next_obj :: nat
  get_key :: "handle \<Rightarrow> string"
  ended :: "handle \<Rightarrow> bool"
  active_experiment :: "handle option"
  trace :: "('p, 'v) event list"

definition emit :: "('p, 'v) event \<Rightarrow> ('p, 'v) world \<Rightarrow> ('p, 'v) world" where
  "emit e w = w\<lparr>trace := trace w @ [e]\<rparr>"

text \<open>\<^verbatim>\<open>comet_ml.api.API().get_default_workspace()\<close>\<close>

definition get_default_workspace :: "('p, 'v) world \<Rightarrow> string \<times> ('p, 'v) world" where
  "get_default_workspace w = (default_workspace w, emit Get_default_workspace w)"

text \<open>\<^verbatim>\<open>comet_ml.APIExperiment(workspace=..., project_name=...)\<close>: a new remote record.\<close>

definition APIExperiment_new ::
  "string \<Rightarrow> string option \<Rightarrow> ('p, 'v) world \<Rightarrow> string \<times> ('p, 'v) world" where
  "APIExperiment_new workspace project_name w =
     (let k = new_keys w (created w)
      in (k, emit (New_APIExperiment workspace project_name k) (w\<lparr>created := Suc (created w)\<rparr>)))"

text \<open>\<^verbatim>\<open>comet_ml.APIExperiment(previous_experiment=key)\<close>: the record of that key.\<close>

definition APIExperiment_previous :: "string \<Rightarrow> ('p, 'v) world \<Rightarrow> string \<times> ('p, 'v) world" where
  "APIExperiment_previous k w = (k, emit (Previous_APIExperiment k) w)"

text \<open>\<^verbatim>\<open>comet_ml.Experiment(workspace=..., project_name=...)\<close>: a new record, a new open object.\<close>

definition Experiment_new ::
  "string \<Rightarrow> string option \<Rightarrow> ('p, 'v) world \<Rightarrow> handle \<times> ('p, 'v) world" where
  "Experiment_new workspace project_name w =
     (let h = next_obj w; k = new_keys w (created w)
      in (h, emit (New_Experiment h workspace project_name)
               (w\<lparr>created := Suc (created w), next_obj := Suc h,
                  get_key := (get_key w)(h := k), ended := (ended w)(h := False)\<rparr>)))"

text \<open>\<^verbatim>\<open>comet_ml.ExistingExperiment(previous_experiment=key)\<close>: a new open object on that record.\<close>

definition ExistingExperiment :: "string \<Rightarrow> ('p, 'v) world \<Rightarrow> handle \<times> ('p, 'v) world" where
  "ExistingExperiment k w =
     (let h = next_obj w
      in (h, emit (Existing_Experiment h k)
               (w\<lparr>next_obj := Suc h, get_key := (get_key w)(h := k),
                  ended := (ended w)(h := False)\<rparr>)))"

text \<open>\<^verbatim>\<open>experiment.end()\<close>\<close>

definition end_experiment :: "handle \<Rightarrow> ('p, 'v) world \<Rightarrow> ('p, 'v) world" where
  "end_experiment h w = emit (End_experiment h) (w\<lparr>ended := (ended w)(h := True)\<rparr>)"

text \<open>\<^verbatim>\<open>study.set_user_attr("comet_study_experiment_key", key)\<close>\<close>

definition set_user_attr_study_key ::
  "string \<Rightarrow> ('p, 'v) study \<Rightarrow> ('q, 'u) world \<Rightarrow> ('p, 'v) study \<times> ('q, 'u) world" where
  "set_user_attr_study_key k s w =
     (s\<lparr>user_attrs := (user_attrs s)\<lparr>comet_study_experiment_key := Some k\<rparr>\<rparr>,
      emit (Set_user_attr ''comet_study_experiment_key'' k) w)"

subsection \<open>Python's formatting\<close>

text \<open>The decimal digit of a number below ten.\<close>

definition digit_char :: "nat \<Rightarrow> char" where
  "digit_char d = ''0123456789'' ! d"

text \<open>\<^verbatim>\<open>str(n)\<close> for an integer: decimal digits, a minus sign when negative.\<close>

fun str_nat :: "nat \<Rightarrow> string" where
  "str_nat n = (if n < 10 then [digit_char n] else str_nat (n div 10) @ [digit_char (n mod 10)])"

declare str_nat.simps [simp del]

definition str_int :: "int \<Rightarrow> string" where
  "str_int i = (if i < 0 then CHR ''-'' # str_nat (nat (- i)) else str_nat (nat i))"

text \<open>
  \<^verbatim>\<open>metric_names[i] if i < len(metric_names) else i\<close> is a string or an integer;
  an f-string formats either.
\<close>

datatype str_or_int = Name string | Index nat

definition metric_name_at :: "string list \<Rightarrow> nat \<Rightarrow> str_or_int" where
  "metric_name_at metric_names i = (if i < length metric_names then Name (metric_names ! i) else Index i)"

fun format_name :: "str_or_int \<Rightarrow> string" where
  "format_name (Name s) = s"
| "format_name (Index i) = str_nat i"

text \<open>\<^verbatim>\<open>json.dumps\<close> of a list of integers: \<^verbatim>\<open>[0, 1, 2]\<close>.\<close>

fun join_comma :: "string list \<Rightarrow> string" where
  "join_comma [] = []"
| "join_comma [s] = s"
| "join_comma (s # t # ss) = s @ '', '' @ join_comma (t # ss)"

definition json_dumps :: "int list \<Rightarrow> string" where
  "json_dumps ns = ''['' @ join_comma (map str_int ns) @ '']''"

text \<open>Truth value of an optional string: \<^verbatim>\<open>None\<close> and \<^verbatim>\<open>""\<close> are false.\<close>

fun truthy :: "string option \<Rightarrow> bool" where
  "truthy None = False"
| "truthy (Some s) = (s \<noteq> [])"

subsection \<open>The callback\<close>

text \<open>The fields of \<^verbatim>\<open>self\<close>.\<close>

record callback =
  self_project_name :: "string option"
  self_workspace :: string
  self_metric_names :: "string list"
  study_experiment :: string
  self_trial_experiments :: "int \<rightharpoonup> string"

text \<open>
  \<^verbatim>\<open>_init_optuna_study_experiment\<close> (lines 136 to 153). It runs inside the constructor,
  when \<^verbatim>\<open>self\<close> has its workspace and its project name only: these are its first two
  arguments. The study is returned as the method leaves it.
\<close>

definition init_optuna_study_experiment ::
  "string \<Rightarrow> string option \<Rightarrow> ('p, 'v) study \<Rightarrow> ('q, 'u) world
     \<Rightarrow> string \<times> ('p, 'v) study \<times> ('q, 'u) world" where
  "init_optuna_study_experiment workspace project_name s w =
     (let experiment_key = comet_study_experiment_key (user_attrs s)
      in if truthy experiment_key then
           (let (study_exp, w1) = APIExperiment_previous (the experiment_key) w
            in (study_exp, s, w1))
         else
           (let (study_exp, w1) = APIExperiment_new workspace project_name w;
                w2 = emit (Api_add_tag study_exp ''optuna_study'') w1;
                w3 = emit (Api_log_other study_exp ''optuna_study_name'' (OStr (study_name s))) w2;
                w4 = emit (Api_log_other study_exp ''optuna_storage'' (OStr (storage_type_name s))) w3;
                (s1, w5) = set_user_attr_study_key study_exp s w4
            in (study_exp, s1, w5)))"

text \<open>The loop of lines 92 to 95, over \<^verbatim>\<open>enumerate(study.directions)\<close>.\<close>

fun log_directions ::
  "string \<Rightarrow> string list \<Rightarrow> (nat \<times> StudyDirection) list \<Rightarrow> ('p, 'v) world \<Rightarrow> ('p, 'v) world" where
  "log_directions study_exp metric_names [] w = w"
| "log_directions study_exp metric_names ((i, d) # rest) w =
     (let direction_str = (if d = MINIMIZE then ''minimize'' else ''maximize'');
          metric_name = metric_name_at metric_names i
      in log_directions study_exp metric_names rest
           (emit (Api_log_other study_exp (''direction_of_objective_'' @ format_name metric_name)
                    (OStr direction_str)) w))"

text \<open>\<^verbatim>\<open>__init__\<close> (lines 68 to 101).\<close>

definition CometCallback_init ::
  "('p, 'v) study \<Rightarrow> string option \<Rightarrow> string option \<Rightarrow> string list option \<Rightarrow> ('q, 'u) world
     \<Rightarrow> callback \<times> ('p, 'v) study \<times> ('q, 'u) world" where
  "CometCallback_init s workspace project_name metric_names w =
     (let names = (case metric_names of None \<Rightarrow> [] | Some ns \<Rightarrow> ns);
          (workspace1, w1) = (case workspace of None \<Rightarrow> get_default_workspace w | Some ws \<Rightarrow> (ws, w));
          (study_exp, s1, w2) = init_optuna_study_experiment workspace1 project_name s w1;
          w3 = log_directions study_exp names (enumerate 0 (directions s1)) w2;
          stored = (case trial_experiments (user_attrs s1) of None \<Rightarrow> Map.empty | Some m \<Rightarrow> m)
      in (\<lparr>self_project_name = project_name, self_workspace = workspace1,
            self_metric_names = names, study_experiment = study_exp,
            self_trial_experiments = stored\<rparr>, s1, w3))"

text \<open>
  \<^verbatim>\<open>_init_optuna_trial_experiment\<close> (lines 155 to 184). The first part, lines 164 to
  170, either returns the active experiment (\<open>Inl\<close>) or goes on, after ending the
  active experiment when it is open (\<open>Inr\<close>).
\<close>

definition check_active ::
  "string option \<Rightarrow> ('p, 'v) world \<Rightarrow> handle + ('p, 'v) world" where
  "check_active experiment_key w =
     (case active_experiment w of
        None \<Rightarrow> Inr w
      | Some a \<Rightarrow>
          if experiment_key = Some (get_key w a) then Inl a
          else if ended w a = False then Inr (end_experiment a w)
          else Inr w)"

definition init_optuna_trial_experiment ::
  "callback \<Rightarrow> ('p, 'v) study \<Rightarrow> ('q, 'u) trial \<Rightarrow> ('r, 't) world
     \<Rightarrow> handle \<times> callback \<times> ('r, 't) world" where
  "init_optuna_trial_experiment self s t w =
     (let experiment_key = self_trial_experiments self (number t)
      in case check_active experiment_key w of
           Inl a \<Rightarrow> (a, self, w)
         | Inr w1 \<Rightarrow>
             if truthy experiment_key then
               (let (e, w2) = ExistingExperiment (the experiment_key) w1
                in (e, self, w2\<lparr>active_experiment := Some e\<rparr>))
             else
               (let (e, w2) = Experiment_new (self_workspace self) (self_project_name self) w1;
                    w3 = emit (Add_tag e ''optuna_trial'') w2;
                    w4 = emit (Log_other e ''optuna_study_name'' (OStr (study_name s))) w3;
                    self1 = self\<lparr>self_trial_experiments :=
                                   (self_trial_experiments self)(number t \<mapsto> get_key w4 e)\<rparr>
                in (e, self1, w4\<lparr>active_experiment := Some e\<rparr>)))"

text \<open>The loop of lines 117 to 119, over \<^verbatim>\<open>enumerate(trial.values)\<close>.\<close>

fun log_metrics ::
  "string list \<Rightarrow> handle \<Rightarrow> (nat \<times> 'v) list \<Rightarrow> ('p, 'v) world \<Rightarrow> ('p, 'v) world" where
  "log_metrics metric_names e [] w = w"
| "log_metrics metric_names e ((i, val) # rest) w =
     (let metric_name = metric_name_at metric_names i
      in log_metrics metric_names e rest (emit (Log_metric e (format_name metric_name) val) w))"

text \<open>
  The condition of line 115, \<^verbatim>\<open>trial.values and len(trial.values) > 1\<close>: \<^verbatim>\<open>None\<close> and
  the empty list are false.
\<close>

fun is_multi_objective :: "'v list option \<Rightarrow> bool" where
  "is_multi_objective None = False"
| "is_multi_objective (Some vs) = (vs \<noteq> [] \<and> length vs > 1)"

text \<open>\<^verbatim>\<open>__call__\<close> (lines 103 to 134).\<close>

definition CometCallback_call ::
  "callback \<Rightarrow> ('p, 'v) study \<Rightarrow> ('p, 'v) trial \<Rightarrow> ('p, 'v) world \<Rightarrow> callback \<times> ('p, 'v) world" where
  "CometCallback_call self s t w =
     (let (trial_exp, self1, w1) = init_optuna_trial_experiment self s t w;
          w2 = emit (Log_parameters trial_exp (params t)) w1;
          w3 = emit (Log_other trial_exp ''trial_number'' (OInt (number t))) w2;
          w4 = emit (Add_tag trial_exp (''trial_number_'' @ str_int (number t))) w3;
          w5 = (if is_multi_objective (trial_values t) then
                  log_metrics (self_metric_names self1) trial_exp
                    (enumerate 0 (the (trial_values t))) w4
                else
                  (let metric_name = (if length (self_metric_names self1) > 0
                                      then self_metric_names self1 ! 0 else ''objective_value'')
                   in emit (Log_optimization trial_exp (study_name s) metric_name
                              (trial_value t) (params t) (direction s)) w4));
          w6 = emit (Api_log_other (study_experiment self1) ''best_trials''
                       (OStr (json_dumps (map number (best_trials s))))) w5
      in (self1, end_experiment trial_exp w6))"

text \<open>
  \<^verbatim>\<open>track_in_comet\<close> (lines 186 to 196). The objective function of the user is any
  function of the trial and the world; \<open>wrapper\<close> reads \<^verbatim>\<open>self\<close> and the study
  \<^verbatim>\<open>self._study\<close> as they are when it is called.
\<close>

definition wrapper ::
  "(('p, 'v) trial \<Rightarrow> ('q, 'u) world \<Rightarrow> 'r \<times> ('q, 'u) world)
     \<Rightarrow> callback \<Rightarrow> ('s, 't) study \<Rightarrow> ('p, 'v) trial \<Rightarrow> ('q, 'u) world
     \<Rightarrow> 'r \<times> callback \<times> ('q, 'u) world" where
  "wrapper func self s t w =
     (let (e, self1, w1) = init_optuna_trial_experiment self s t w;
          t1 = t\<lparr>trial_experiment := Some e\<rparr>;
          (r, w2) = func t1 w1
      in (r, self1, w2))"

definition decorator ::
  "(('p, 'v) trial \<Rightarrow> ('q, 'u) world \<Rightarrow> 'r \<times> ('q, 'u) world)
     \<Rightarrow> callback \<Rightarrow> ('s, 't) study \<Rightarrow> ('p, 'v) trial \<Rightarrow> ('q, 'u) world
     \<Rightarrow> 'r \<times> callback \<times> ('q, 'u) world" where
  "decorator func = wrapper func"

definition track_in_comet ::
  "(('p, 'v) trial \<Rightarrow> ('q, 'u) world \<Rightarrow> 'r \<times> ('q, 'u) world)
     \<Rightarrow> callback \<Rightarrow> ('s, 't) study \<Rightarrow> ('p, 'v) trial \<Rightarrow> ('q, 'u) world
     \<Rightarrow> 'r \<times> callback \<times> ('q, 'u) world" where
  "track_in_comet = decorator"

subsection \<open>Observations on a run\<close>

text \<open>The calls made between two worlds, the second reached from the first.\<close>

definition new_events :: "('p, 'v) world \<Rightarrow> ('p, 'v) world \<Rightarrow> ('p, 'v) event list" where
  "new_events w w' = drop (length (trace w)) (trace w')"

fun is_set_user_attr :: "('p, 'v) event \<Rightarrow> bool" where
  "is_set_user_attr (Set_user_attr k v) = True"
| "is_set_user_attr e = False"

fun is_log_metric :: "('p, 'v) event \<Rightarrow> bool" where
  "is_log_metric (Log_metric h n v) = True"
| "is_log_metric e = False"

fun is_log_optimization :: "('p, 'v) event \<Rightarrow> bool" where
  "is_log_optimization (Log_optimization h i n v p d) = True"
| "is_log_optimization e = False"

text \<open>A direction annotation: a \<^verbatim>\<open>log_other\<close> on a study's record under a name that starts with
  \<^verbatim>\<open>direction_of_objective_\<close>.\<close>

fun is_direction_annotation :: "('p, 'v) event \<Rightarrow> bool" where
  "is_direction_annotation (Api_log_other k n v) =
     (take (length ''direction_of_objective_'') n = ''direction_of_objective_'')"
| "is_direction_annotation e = False"

text \<open>
  The annotations of a study's record after a sequence of calls: \<^verbatim>\<open>log_other\<close> sets the
  value of a name, so the last call on the record of key \<open>k\<close> under the name \<open>n\<close>
  decides.
\<close>

fun annotation :: "('p, 'v) event list \<Rightarrow> string \<Rightarrow> string \<Rightarrow> other_value option" where
  "annotation [] k n = None"
| "annotation (Api_log_other k' n' v # es) k n =
     (case annotation es k n of
        Some later \<Rightarrow> Some later
      | None \<Rightarrow> if k' = k \<and> n' = n then Some v else None)"
| "annotation (e # es) k n = annotation es k n"

text \<open>
  At most one experiment object of the process is open, and it is the one
  \<^verbatim>\<open>comet_ml.active_experiment\<close> refers to, which is an object that exists.
\<close>

definition at_most_one_active :: "('p, 'v) world \<Rightarrow> bool" where
  "at_most_one_active w \<longleftrightarrow>
     (\<forall>h < next_obj w. \<not> ended w h \<longrightarrow> active_experiment w = Some h) \<and>
     (case active_experiment w of None \<Rightarrow> True | Some a \<Rightarrow> a < next_obj w)"


subsection \<open>Concrete inputs\<close>

text \<open>
  Parameter mappings are association lists and objective values are numbers here.
  \<open>world0\<close> is a world in which nothing has happened; the service numbers its keys.
\<close>

type_synonym params0 = "(string \<times> real) list"

definition world0 :: "(params0, real) world" where
  "world0 = \<lparr>default_workspace = ''team'', new_keys = (\<lambda>n. ''key'' @ str_nat n), created = 0,
             next_obj = 0, get_key = (\<lambda>h. []), ended = (\<lambda>h. True), active_experiment = None,
             trace = []\<rparr>"

text \<open>A world with one experiment object, open and active, on the record \<^verbatim>\<open>key1\<close>.\<close>

definition world_open :: "(params0, real) world" where
  "world_open = \<lparr>default_workspace = ''team'', new_keys = (\<lambda>n. ''key'' @ str_nat n), created = 2,
                 next_obj = 1, get_key = (\<lambda>h. ''key1''), ended = (\<lambda>h. False),
                 active_experiment = Some 0, trace = []\<rparr>"

definition trial0 :: "(params0, real) trial" where
  "trial0 = \<lparr>number = 0, params = [(''lr'', 0.5)], trial_values = Some [0.42],
             trial_value = Some 0.42, trial_experiment = None\<rparr>"

definition trial1 :: "(params0, real) trial" where
  "trial1 = \<lparr>number = 1, params = [(''lr'', 0.25)], trial_values = Some [0.1, 0.9],
             trial_value = None, trial_experiment = None\<rparr>"

text \<open>A trial that failed: no values.\<close>

definition trial_failed :: "(params0, real) trial" where
  "trial_failed = \<lparr>number = 2, params = [(''lr'', 2)], trial_values = None,
                   trial_value = None, trial_experiment = None\<rparr>"

text \<open>A trial with an empty sequence of values.\<close>

definition trial_empty :: "(params0, real) trial" where
  "trial_empty = \<lparr>number = 3, params = [(''lr'', 1)], trial_values = Some [],
                  trial_value = None, trial_experiment = None\<rparr>"

text \<open>A study that no callback has seen (no user attribute), then with a key, then with
  an empty string under the reserved key; and a study with two objectives.\<close>

definition fresh_study :: "(params0, real) study" where
  "fresh_study = \<lparr>study_name = ''demo'', directions = [MINIMIZE], direction = MINIMIZE,
                  user_attrs = \<lparr>comet_study_experiment_key = None, trial_experiments = None\<rparr>,
                  storage_type_name = ''InMemoryStorage'', best_trials = [trial0]\<rparr>"

definition study_with_key :: "(params0, real) study" where
  "study_with_key =
     fresh_study\<lparr>user_attrs := \<lparr>comet_study_experiment_key = Some ''key0'', trial_experiments = None\<rparr>\<rparr>"

definition study_blank_key :: "(params0, real) study" where
  "study_blank_key =
     fresh_study\<lparr>user_attrs := \<lparr>comet_study_experiment_key = Some [], trial_experiments = None\<rparr>\<rparr>"

definition study2 :: "(params0, real) study" where
  "study2 = \<lparr>study_name = ''pareto'', directions = [MINIMIZE, MAXIMIZE], direction = NOT_SET,
             user_attrs = \<lparr>comet_study_experiment_key = None, trial_experiments = None\<rparr>,
             storage_type_name = ''RDBStorage'', best_trials = [trial0, trial1]\<rparr>"

text \<open>Callbacks: without metric names, with two of them, and with a key stored for trial 0.\<close>

definition callback0 :: callback where
  "callback0 = \<lparr>self_project_name = Some ''general'', self_workspace = ''team'',
                self_metric_names = [], study_experiment = ''key0'',
                self_trial_experiments = Map.empty\<rparr>"

definition callback_named :: callback where
  "callback_named = callback0\<lparr>self_metric_names := [''loss'', ''acc'']\<rparr>"

definition callback_trial0 :: callback where
  "callback_trial0 = callback0\<lparr>self_trial_experiments := [0 \<mapsto> ''key1'']\<rparr>"

text \<open>An objective function that logs to the experiment of its trial, as in the docstring of
  the class, and returns a value.\<close>

definition objective0 ::
  "(params0, real) trial \<Rightarrow> (params0, real) world \<Rightarrow> real \<times> (params0, real) world" where
  "objective0 t w =
     (0.42, (case trial_experiment t of None \<Rightarrow> w
             | Some e \<Rightarrow> emit (Log_other e ''foo'' (OStr ''bar'')) w))"

lemmas input_defs = world0_def world_open_def trial0_def trial1_def trial_failed_def trial_empty_def
  fresh_study_def study_with_key_def study_blank_key_def study2_def callback0_def
  callback_named_def callback_trial0_def

section \<open>Properties\<close>

subsection \<open>The trace of each method\<close>

lemmas collaborator_defs = emit_def get_default_workspace_def APIExperiment_new_def
  APIExperiment_previous_def Experiment_new_def ExistingExperiment_def end_experiment_def
  set_user_attr_study_key_def

lemmas init_trial_defs = init_optuna_trial_experiment_def check_active_def new_events_def
  collaborator_defs Let_def

lemma formatting_examples:
  "str_int 0 = ''0''" "str_int 12 = ''12''" "str_int (- 7) = ''-7''" "str_nat 305 = ''305''"
  "json_dumps [] = ''[]''" "json_dumps [4] = ''[4]''" "json_dumps [0, 12, 3] = ''[0, 12, 3]''"
  by (simp_all add: json_dumps_def str_int_def str_nat.simps digit_char_def)

lemma map_enumerate_nth:
  "map f (enumerate 0 xs) = map (\<lambda>i. f (i, xs ! i)) [0..<length xs]"
  by (rule nth_equalityI) (simp_all add: nth_enumerate_eq)

lemma format_metric_name:
  "format_name (metric_name_at names i) = (if i < length names then names ! i else str_nat i)"
  by (simp add: metric_name_at_def)

lemma log_directions_trace:
  "trace (log_directions se names ids w) =
     trace w @ map (\<lambda>(i, d). Api_log_other se
                      (''direction_of_objective_'' @ format_name (metric_name_at names i))
                      (OStr (if d = MINIMIZE then ''minimize'' else ''maximize''))) ids"
  by (induction ids arbitrary: w) (auto simp: emit_def)

lemma log_metrics_trace:
  "trace (log_metrics names e ivs w) =
     trace w @ map (\<lambda>(i, v). Log_metric e (format_name (metric_name_at names i)) v) ivs"
  by (induction ivs arbitrary: w) (auto simp: emit_def)

lemma init_trial_trace:
  "trace (snd (snd (init_optuna_trial_experiment self s t w))) =
     trace w @ new_events w (snd (snd (init_optuna_trial_experiment self s t w)))"
  by (simp add: init_trial_defs split: option.splits)

lemma init_trial_events:
  "filter is_log_metric (new_events w (snd (snd (init_optuna_trial_experiment self s t w)))) = []"
  "filter is_log_optimization (new_events w (snd (snd (init_optuna_trial_experiment self s t w)))) = []"
  "filter is_set_user_attr (new_events w (snd (snd (init_optuna_trial_experiment self s t w)))) = []"
  "annotation (new_events w (snd (snd (init_optuna_trial_experiment self s t w)))) k n = None"
  by (simp_all add: init_trial_defs split: option.splits)

lemma init_trial_self:
  "study_experiment (fst (snd (init_optuna_trial_experiment self s t w))) = study_experiment self"
  "self_metric_names (fst (snd (init_optuna_trial_experiment self s t w))) = self_metric_names self"
  by (simp_all add: init_trial_defs split: option.splits)

lemma init_trial_active:
  "active_experiment (snd (snd (init_optuna_trial_experiment self s t w))) =
     Some (fst (init_optuna_trial_experiment self s t w))"
  by (simp add: init_trial_defs split: option.splits)

lemma init_trial_invariant:
  "at_most_one_active w \<Longrightarrow>
   at_most_one_active (snd (snd (init_optuna_trial_experiment self s t w)))"
  by (auto simp: at_most_one_active_def init_trial_defs less_Suc_eq split: option.splits)


lemma call_trace:
  "trace (snd (CometCallback_call self s t w)) =
     trace (snd (snd (init_optuna_trial_experiment self s t w))) @
     [Log_parameters (fst (init_optuna_trial_experiment self s t w)) (params t),
      Log_other (fst (init_optuna_trial_experiment self s t w)) ''trial_number'' (OInt (number t)),
      Add_tag (fst (init_optuna_trial_experiment self s t w)) (''trial_number_'' @ str_int (number t))] @
     (if is_multi_objective (trial_values t) then
        map (\<lambda>(i, v). Log_metric (fst (init_optuna_trial_experiment self s t w))
                         (format_name (metric_name_at (self_metric_names self) i)) v)
            (enumerate 0 (the (trial_values t)))
      else
        [Log_optimization (fst (init_optuna_trial_experiment self s t w)) (study_name s)
           (case self_metric_names self of [] \<Rightarrow> ''objective_value'' | name # _ \<Rightarrow> name)
           (trial_value t) (params t) (direction s)]) @
     [Api_log_other (study_experiment self) ''best_trials''
        (OStr (json_dumps (map number (best_trials s)))),
      End_experiment (fst (init_optuna_trial_experiment self s t w))]"
  using init_trial_self [of self s t w]
  by (cases "init_optuna_trial_experiment self s t w")
     (auto simp: CometCallback_call_def Let_def log_metrics_trace emit_def end_experiment_def
           split: list.splits)



lemma call_new_events:
  "new_events w (snd (CometCallback_call self s t w)) =
     new_events w (snd (snd (init_optuna_trial_experiment self s t w))) @
     [Log_parameters (fst (init_optuna_trial_experiment self s t w)) (params t),
      Log_other (fst (init_optuna_trial_experiment self s t w)) ''trial_number'' (OInt (number t)),
      Add_tag (fst (init_optuna_trial_experiment self s t w)) (''trial_number_'' @ str_int (number t))] @
     (if is_multi_objective (trial_values t) then
        map (\<lambda>(i, v). Log_metric (fst (init_optuna_trial_experiment self s t w))
                         (format_name (metric_name_at (self_metric_names self) i)) v)
            (enumerate 0 (the (trial_values t)))
      else
        [Log_optimization (fst (init_optuna_trial_experiment self s t w)) (study_name s)
           (case self_metric_names self of [] \<Rightarrow> ''objective_value'' | name # _ \<Rightarrow> name)
           (trial_value t) (params t) (direction s)]) @
     [Api_log_other (study_experiment self) ''best_trials''
        (OStr (json_dumps (map number (best_trials s)))),
      End_experiment (fst (init_optuna_trial_experiment self s t w))]"
  by (subst (1) new_events_def, subst call_trace, subst init_trial_trace) simp

lemma call_trace_new_events:
  "trace (snd (CometCallback_call self s t w)) =
     trace w @ new_events w (snd (CometCallback_call self s t w))"
  by (subst call_new_events, subst call_trace, subst init_trial_trace) simp

lemma filter_metric_map:
  "filter is_log_metric (map (\<lambda>(i, v). Log_metric e (f i) v) ivs) = map (\<lambda>(i, v). Log_metric e (f i) v) ivs"
  "filter is_log_optimization (map (\<lambda>(i, v). Log_metric e (f i) v) ivs) = []"
  by (induction ivs) auto

lemma single_branch_events:
  assumes "\<not> is_multi_objective (trial_values t)"
  shows "filter is_log_optimization (new_events w (snd (CometCallback_call self s t w))) =
           [Log_optimization (fst (init_optuna_trial_experiment self s t w)) (study_name s)
              (case self_metric_names self of [] \<Rightarrow> ''objective_value'' | name # _ \<Rightarrow> name)
              (trial_value t) (params t) (direction s)]"
    and "filter is_log_metric (new_events w (snd (CometCallback_call self s t w))) = []"
  using assms by (simp_all add: call_new_events init_trial_events)

lemma init_study_trace:
  "\<exists>pre. trace (snd (snd (init_optuna_study_experiment ws pn s w))) = trace w @ pre \<and>
         filter is_direction_annotation pre = []"
  by (simp add: init_optuna_study_experiment_def collaborator_defs Let_def)

lemma init_study_directions:
  "directions (fst (snd (init_optuna_study_experiment ws pn s w))) = directions s"
  by (simp add: init_optuna_study_experiment_def collaborator_defs Let_def)

lemma filter_direction_map:
  "filter is_direction_annotation
     (map (\<lambda>i. Api_log_other k (''direction_of_objective_'' @ f i) (g i)) is) =
   map (\<lambda>i. Api_log_other k (''direction_of_objective_'' @ f i) (g i)) is"
  by (induction "is") auto

lemma init_fields:
  "self_metric_names (fst (CometCallback_init s workspace project_name metric_names w)) =
     (case metric_names of None \<Rightarrow> [] | Some ns \<Rightarrow> ns)"
  "study_experiment (fst (CometCallback_init s workspace project_name metric_names w)) =
     fst (init_optuna_study_experiment
            (case workspace of None \<Rightarrow> default_workspace w | Some ws \<Rightarrow> ws) project_name s
            (case workspace of None \<Rightarrow> emit Get_default_workspace w | Some ws \<Rightarrow> w))"
  by (simp_all add: CometCallback_init_def Let_def case_prod_beta get_default_workspace_def
        split: option.splits)

lemma init_trace:
  "\<exists>pre. trace (snd (snd (CometCallback_init s workspace project_name metric_names w))) =
          trace w @ pre @
          map (\<lambda>i. Api_log_other
                     (study_experiment (fst (CometCallback_init s workspace project_name metric_names w)))
                     (''direction_of_objective_'' @
                        (if i < length (case metric_names of None \<Rightarrow> [] | Some ns \<Rightarrow> ns)
                         then (case metric_names of None \<Rightarrow> [] | Some ns \<Rightarrow> ns) ! i
                         else str_nat i))
                     (OStr (if directions s ! i = MINIMIZE then ''minimize'' else ''maximize'')))
              [0..<length (directions s)] \<and>
         filter is_direction_annotation pre = []"
proof -
  let ?ws = "case workspace of None \<Rightarrow> default_workspace w | Some ws \<Rightarrow> ws"
  let ?w1 = "case workspace of None \<Rightarrow> emit Get_default_workspace w | Some ws \<Rightarrow> w"
  let ?r = "init_optuna_study_experiment ?ws project_name s ?w1"
  obtain pre0 where pre0: "trace ?w1 = trace w @ pre0" "filter is_direction_annotation pre0 = []"
    by (cases workspace) (simp_all add: emit_def)
  obtain pre1 where pre1: "trace (snd (snd ?r)) = trace ?w1 @ pre1"
      "filter is_direction_annotation pre1 = []"
    using init_study_trace [of ?ws project_name s ?w1] by blast
  have "trace (snd (snd (CometCallback_init s workspace project_name metric_names w))) =
      trace (snd (snd ?r)) @
      map (\<lambda>(i, d). Api_log_other (fst ?r)
                      (''direction_of_objective_'' @
                         format_name (metric_name_at (case metric_names of None \<Rightarrow> [] | Some ns \<Rightarrow> ns) i))
                      (OStr (if d = MINIMIZE then ''minimize'' else ''maximize'')))
          (enumerate 0 (directions s))"
    by (simp add: CometCallback_init_def Let_def case_prod_beta get_default_workspace_def
          log_directions_trace init_study_directions split: option.splits)
  then show ?thesis
    using pre0 pre1
    by (simp add: init_fields map_enumerate_nth format_metric_name)
qed



lemma log_metrics_fields:
  "next_obj (log_metrics names e ivs w) = next_obj w"
  "ended (log_metrics names e ivs w) = ended w"
  "active_experiment (log_metrics names e ivs w) = active_experiment w"
  by (induction ivs arbitrary: w) (auto simp: emit_def)

lemma call_invariant:
  assumes "at_most_one_active w"
  shows "at_most_one_active (snd (CometCallback_call self s t w))"
proof -
  obtain e self1 w1 where r: "init_optuna_trial_experiment self s t w = (e, self1, w1)"
    by (cases "init_optuna_trial_experiment self s t w")
  have inv1: "at_most_one_active w1"
    using init_trial_invariant [OF assms, of self s t] by (simp add: r)
  have act: "active_experiment w1 = Some e"
    using init_trial_active [of self s t w] by (simp add: r)
  show ?thesis
    using inv1 act
    by (auto simp: CometCallback_call_def r Let_def at_most_one_active_def log_metrics_fields
          emit_def end_experiment_def)
qed

subsection \<open>Resolution of a trial's experiment\<close>

text \<open>
  Claim C7. If \<^verbatim>\<open>comet_ml.active_experiment\<close> exists and its key is the identifier stored
  for the trial, \<^verbatim>\<open>_init_optuna_trial_experiment\<close> returns that experiment and changes
  nothing: the callback (so the mapping from trial numbers to keys) and the world (so
  the trace: no \<^verbatim>\<open>end\<close>, no creation, no resumption, no tag, no annotation) are the
  ones it was given.
\<close>

theorem active_experiment_with_stored_key_is_reused:
  assumes "active_experiment w = Some a"
    and "self_trial_experiments self (number t) = Some (get_key w a)"
  shows "init_optuna_trial_experiment self s t w = (a, self, w)"
  using assms by (simp add: init_optuna_trial_experiment_def check_active_def)

theorem active_experiment_with_stored_key_is_reused_witness:
  "active_experiment world_open = Some 0 \<and>
   self_trial_experiments callback_trial0 (number trial0) = Some (get_key world_open 0) \<and>
   init_optuna_trial_experiment callback_trial0 fresh_study trial0 world_open =
     (0, callback_trial0, world_open)"
  using active_experiment_with_stored_key_is_reused
          [of world_open 0 callback_trial0 trial0 fresh_study]
  by (simp add: world_open_def callback_trial0_def callback0_def trial0_def)

text \<open>
  Claim C3. \<^verbatim>\<open>_init_optuna_trial_experiment\<close> keeps at most one experiment of the process
  open. Whenever the active experiment is another one than the trial's (its key is not
  the stored identifier) and is still open, the first call made is its \<^verbatim>\<open>end\<close>; the
  creation or the resumption of the trial's experiment comes after it, and
  \<^verbatim>\<open>comet_ml.active_experiment\<close> is the returned experiment when the method returns (on
  every path).
\<close>

theorem active_experiment_closed_before_switch:
  "case init_optuna_trial_experiment self s t w of
     (e, self', w') \<Rightarrow>
       trace w' = trace w @ new_events w w' \<and>
       active_experiment w' = Some e \<and>
       (at_most_one_active w \<longrightarrow> at_most_one_active w') \<and>
       (\<forall>a. active_experiment w = Some a \<and>
            self_trial_experiments self (number t) \<noteq> Some (get_key w a) \<and> \<not> ended w a \<longrightarrow>
            new_events w w' =
              End_experiment a #
              (if truthy (self_trial_experiments self (number t))
               then [Existing_Experiment e (the (self_trial_experiments self (number t)))]
               else [New_Experiment e (self_workspace self) (self_project_name self),
                     Add_tag e ''optuna_trial'',
                     Log_other e ''optuna_study_name'' (OStr (study_name s))]) \<and>
            \<not> ended w' e \<and> (a < next_obj w \<longrightarrow> e \<noteq> a \<and> ended w' a))"
proof -
  have switch: "new_events w (snd (snd (init_optuna_trial_experiment self s t w))) =
      End_experiment a #
      (if truthy (self_trial_experiments self (number t))
       then [Existing_Experiment (fst (init_optuna_trial_experiment self s t w))
               (the (self_trial_experiments self (number t)))]
       else [New_Experiment (fst (init_optuna_trial_experiment self s t w))
               (self_workspace self) (self_project_name self),
             Add_tag (fst (init_optuna_trial_experiment self s t w)) ''optuna_trial'',
             Log_other (fst (init_optuna_trial_experiment self s t w)) ''optuna_study_name''
               (OStr (study_name s))]) \<and>
      \<not> ended (snd (snd (init_optuna_trial_experiment self s t w)))
          (fst (init_optuna_trial_experiment self s t w)) \<and>
      (a < next_obj w \<longrightarrow> fst (init_optuna_trial_experiment self s t w) \<noteq> a \<and>
         ended (snd (snd (init_optuna_trial_experiment self s t w))) a)"
    if "active_experiment w = Some a"
      and "self_trial_experiments self (number t) \<noteq> Some (get_key w a)"
      and "\<not> ended w a" for a
    using that by (simp add: init_trial_defs)
  show ?thesis
    unfolding case_prod_beta
    using init_trial_trace [of self s t w] init_trial_active [of self s t w]
      init_trial_invariant [of w self s t] switch
    by blast
qed

theorem active_experiment_closed_before_switch_witness:
  "at_most_one_active world_open \<and> active_experiment world_open = Some 0 \<and>
   self_trial_experiments callback0 (number trial1) \<noteq> Some (get_key world_open 0) \<and>
   \<not> ended world_open 0 \<and>
   (case init_optuna_trial_experiment callback0 fresh_study trial1 world_open of
      (e, self', w') \<Rightarrow>
        e = 1 \<and> active_experiment w' = Some 1 \<and> at_most_one_active w' \<and>
        new_events world_open w' =
          [End_experiment 0, New_Experiment 1 ''team'' (Some ''general''),
           Add_tag 1 ''optuna_trial'', Log_other 1 ''optuna_study_name'' (OStr ''demo'')] \<and>
        ended w' 0 \<and> \<not> ended w' 1)"
proof -
  have inv: "at_most_one_active world_open"
    by (simp add: at_most_one_active_def world_open_def)
  have e: "fst (init_optuna_trial_experiment callback0 fresh_study trial1 world_open) = 1"
    by (simp add: init_trial_defs input_defs)
  have pre: "active_experiment world_open = Some 0"
    "self_trial_experiments callback0 (number trial1) \<noteq> Some (get_key world_open 0)"
    "\<not> ended world_open 0" "(0::nat) < next_obj world_open"
    "\<not> truthy (self_trial_experiments callback0 (number trial1))"
    "self_workspace callback0 = ''team''" "self_project_name callback0 = Some ''general''"
    "study_name fresh_study = ''demo''"
    by (simp_all add: input_defs)
  show ?thesis
    using active_experiment_closed_before_switch
            [where self = callback0 and s = fresh_study and t = trial1 and w = world_open]
      inv e pre
    by (auto simp: case_prod_beta)
qed

subsection \<open>Resolution of the study's experiment\<close>




subsection \<open>Construction\<close>

text \<open>
  Claim C4. For a study with \<open>N\<close> objectives the constructor logs exactly \<open>N\<close>
  direction annotations on the study's experiment, one per objective and in their order:
  the \<open>i\<close>-th has the value \<^verbatim>\<open>"minimize"\<close> when the \<open>i\<close>-th direction is
  \<^verbatim>\<open>MINIMIZE\<close> and \<^verbatim>\<open>"maximize"\<close> otherwise, and its name ends with the \<open>i\<close>-th
  metric name when the list of metric names is that long, with the index \<open>i\<close>
  otherwise.
\<close>

theorem init_logs_one_direction_per_objective:
  "case CometCallback_init s workspace project_name metric_names w of
     (self, s', w') \<Rightarrow>
       trace w' = trace w @ new_events w w' \<and>
       self_metric_names self = (case metric_names of None \<Rightarrow> [] | Some ns \<Rightarrow> ns) \<and>
       filter is_direction_annotation (new_events w w') =
         map (\<lambda>i. Api_log_other (study_experiment self)
                    (''direction_of_objective_'' @
                       (if i < length (self_metric_names self) then self_metric_names self ! i
                        else str_nat i))
                    (OStr (if directions s ! i = MINIMIZE then ''minimize'' else ''maximize'')))
             [0..<length (directions s)] \<and>
       length (filter is_direction_annotation (new_events w w')) = length (directions s)"
proof -
  obtain pre where pre:
    "trace (snd (snd (CometCallback_init s workspace project_name metric_names w))) =
       trace w @ pre @
       map (\<lambda>i. Api_log_other
                  (study_experiment (fst (CometCallback_init s workspace project_name metric_names w)))
                  (''direction_of_objective_'' @
                     (if i < length (case metric_names of None \<Rightarrow> [] | Some ns \<Rightarrow> ns)
                      then (case metric_names of None \<Rightarrow> [] | Some ns \<Rightarrow> ns) ! i
                      else str_nat i))
                  (OStr (if directions s ! i = MINIMIZE then ''minimize'' else ''maximize'')))
           [0..<length (directions s)]"
    "filter is_direction_annotation pre = []"
    using init_trace [of s workspace project_name metric_names w] by blast
  show ?thesis
    unfolding case_prod_beta
    by (simp add: new_events_def pre init_fields(1) filter_direction_map)
qed

theorem init_logs_one_direction_per_objective_witness:
  "case CometCallback_init study2 None (Some ''general'') (Some [''loss'']) world0 of
     (self, s', w') \<Rightarrow>
       self_metric_names self = [''loss''] \<and>
       filter is_direction_annotation (new_events world0 w') =
         [Api_log_other ''key0'' ''direction_of_objective_loss'' (OStr ''minimize''),
          Api_log_other ''key0'' ''direction_of_objective_1'' (OStr ''maximize'')] \<and>
       length (filter is_direction_annotation (new_events world0 w')) = 2"
proof -
  have k: "study_experiment
      (fst (CometCallback_init study2 None (Some ''general'') (Some [''loss'']) world0)) = ''key0''"
    by (simp add: init_fields init_optuna_study_experiment_def collaborator_defs Let_def
          study2_def world0_def str_nat.simps digit_char_def)
  have d: "directions study2 = [MINIMIZE, MAXIMIZE]"
    by (simp add: study2_def)
  have up: "[0..<2] = [0, Suc 0]"
    by (simp add: upt_rec)
  show ?thesis
    using init_logs_one_direction_per_objective
            [where s = study2 and workspace = None and project_name = "Some ''general''"
               and metric_names = "Some [''loss'']" and w = world0]
    by (simp add: case_prod_beta k d up str_nat.simps digit_char_def)
qed

subsection \<open>The call after each trial\<close>

text \<open>
  Claim C5. For a trial with exactly one objective value the call makes exactly one
  \<^verbatim>\<open>log_optimization\<close> call, on the trial's experiment: its metric name is the first
  configured metric name, or \<^verbatim>\<open>"objective_value"\<close> when none is configured; it carries
  the trial's \<^verbatim>\<open>value\<close>, the trial's parameters, the study's direction, and the study's
  name as the optimisation identifier. The call makes no \<^verbatim>\<open>log_metric\<close> call.
\<close>

theorem single_objective_logs_one_result:
  assumes "trial_values t = Some [v]"
  shows "case CometCallback_call self s t w of (self', w') \<Rightarrow>
           trace w' = trace w @ new_events w w' \<and>
           filter is_log_optimization (new_events w w') =
             [Log_optimization (fst (init_optuna_trial_experiment self s t w)) (study_name s)
                (case self_metric_names self of [] \<Rightarrow> ''objective_value'' | name # _ \<Rightarrow> name)
                (trial_value t) (params t) (direction s)] \<and>
           filter is_log_metric (new_events w w') = []"
proof -
  have single: "\<not> is_multi_objective (trial_values t)"
    using assms by simp
  show ?thesis
    unfolding case_prod_beta
    by (intro conjI call_trace_new_events single_branch_events [OF single])
qed

theorem single_objective_logs_one_result_witness:
  "trial_values trial0 = Some [0.42] \<and>
   (case CometCallback_call callback0 fresh_study trial0 world0 of
      (self', w') \<Rightarrow>
        filter is_log_optimization (new_events world0 w') =
          [Log_optimization 0 ''demo'' ''objective_value'' (Some 0.42) [(''lr'', 0.5)] MINIMIZE] \<and>
        filter is_log_metric (new_events world0 w') = [])"
proof -
  have v: "trial_values trial0 = Some [0.42]"
    by (simp add: trial0_def)
  have e: "fst (init_optuna_trial_experiment callback0 fresh_study trial0 world0) = 0"
    by (simp add: init_trial_defs input_defs)
  show ?thesis
    using single_objective_logs_one_result
            [OF v, where self = callback0 and s = fresh_study and w = world0] v
    by (simp add: case_prod_beta e)
       (simp add: callback0_def fresh_study_def trial0_def)
qed

text \<open>
  Claim C6. For a trial with more than one objective value the call makes one
  \<^verbatim>\<open>log_metric\<close> call per value, in their order, on the trial's experiment: the
  \<open>i\<close>-th is named by the \<open>i\<close>-th configured metric name when there is one, by the
  index \<open>i\<close> otherwise, and carries the \<open>i\<close>-th value. The call makes no
  \<^verbatim>\<open>log_optimization\<close> call.
\<close>

theorem multi_objective_logs_each_metric:
  assumes "trial_values t = Some vs" and "length vs > 1"
  shows "case CometCallback_call self s t w of (self', w') \<Rightarrow>
           trace w' = trace w @ new_events w w' \<and>
           filter is_log_metric (new_events w w') =
             map (\<lambda>i. Log_metric (fst (init_optuna_trial_experiment self s t w))
                        (if i < length (self_metric_names self) then self_metric_names self ! i
                         else str_nat i)
                        (vs ! i))
                 [0..<length vs] \<and>
           filter is_log_optimization (new_events w w') = []"
proof -
  have multi: "is_multi_objective (trial_values t)"
    using assms by auto
  have metrics: "filter is_log_metric (new_events w (snd (CometCallback_call self s t w))) =
      map (\<lambda>i. Log_metric (fst (init_optuna_trial_experiment self s t w))
                 (if i < length (self_metric_names self) then self_metric_names self ! i
                  else str_nat i)
                 (vs ! i))
          [0..<length vs]"
    using multi assms(1)
    by (simp add: call_new_events init_trial_events filter_metric_map map_enumerate_nth
          format_metric_name)
  have no_result: "filter is_log_optimization (new_events w (snd (CometCallback_call self s t w))) = []"
    using multi by (simp add: call_new_events init_trial_events filter_metric_map)
  show ?thesis
    unfolding case_prod_beta
    by (intro conjI call_trace_new_events metrics no_result)
qed

theorem multi_objective_logs_each_metric_witness:
  "trial_values trial1 = Some [0.1, 0.9] \<and> length [0.1, 0.9 :: real] > 1 \<and>
   (case CometCallback_call callback_named study2 trial1 world0 of
      (self', w') \<Rightarrow>
        filter is_log_metric (new_events world0 w') =
          [Log_metric 0 ''loss'' 0.1, Log_metric 0 ''acc'' 0.9] \<and>
        filter is_log_optimization (new_events world0 w') = [])"
proof -
  have v: "trial_values trial1 = Some [0.1, 0.9]"
    by (simp add: trial1_def)
  have l: "length [0.1, 0.9 :: real] > 1"
    by simp
  have e: "fst (init_optuna_trial_experiment callback_named study2 trial1 world0) = 0"
    by (simp add: init_trial_defs input_defs)
  have up: "[0..<2] = [0, Suc 0]"
    by (simp add: upt_rec)
  show ?thesis
    using multi_objective_logs_each_metric
            [OF v l, where self = callback_named and s = study2 and w = world0] v
    by (simp add: case_prod_beta e up)
       (simp add: callback_named_def callback0_def)
qed





subsection \<open>The decorator\<close>

text \<open>
  Claim C9. For every objective function \<open>func\<close> and every trial, the function that
  \<^verbatim>\<open>track_in_comet\<close> produces resolves the trial's experiment first, calls \<open>func\<close>
  on the trial with that experiment as its \<^verbatim>\<open>experiment\<close> attribute, in the world that
  the resolution left (where that experiment is the active one), and returns what
  \<open>func\<close> returns.
\<close>

theorem track_in_comet_resolves_then_delegates:
  "case init_optuna_trial_experiment self s t w of
     (e, self1, w1) \<Rightarrow>
       track_in_comet func self s t w =
         (fst (func (t\<lparr>trial_experiment := Some e\<rparr>) w1), self1,
          snd (func (t\<lparr>trial_experiment := Some e\<rparr>) w1)) \<and>
       active_experiment w1 = Some e"
  using init_trial_active [of self s t w]
  by (simp add: track_in_comet_def decorator_def wrapper_def case_prod_beta Let_def)

theorem track_in_comet_resolves_then_delegates_witness:
  "fst (track_in_comet objective0 callback0 fresh_study trial0 world0) = 0.42 \<and>
   trace (snd (snd (track_in_comet objective0 callback0 fresh_study trial0 world0))) =
     [New_Experiment 0 ''team'' (Some ''general''), Add_tag 0 ''optuna_trial'',
      Log_other 0 ''optuna_study_name'' (OStr ''demo''), Log_other 0 ''foo'' (OStr ''bar'')]"
proof -
  have r: "init_optuna_trial_experiment callback0 fresh_study trial0 world0 =
      (0, callback0\<lparr>self_trial_experiments := [0 \<mapsto> ''key0'']\<rparr>,
       world0\<lparr>created := 1, next_obj := 1, get_key := (get_key world0)(0 := ''key0''),
              ended := (ended world0)(0 := False), active_experiment := Some 0,
              trace := [New_Experiment 0 ''team'' (Some ''general''), Add_tag 0 ''optuna_trial'',
                        Log_other 0 ''optuna_study_name'' (OStr ''demo'')]\<rparr>)"
    by (simp add: init_trial_defs input_defs str_nat.simps digit_char_def)
  show ?thesis
    using track_in_comet_resolves_then_delegates
            [where self = callback0 and s = fresh_study and t = trial0 and w = world0
               and func = objective0]
    by (simp add: r objective0_def emit_def)
qed

subsection \<open>The mapping from trial numbers to keys\<close>

text \<open>
  Claim C2 says that the key of a new trial's experiment is stored in the study's user
  attributes under \<^verbatim>\<open>"trial_experiments"\<close>. The source does not do it: line 181
  updates the dictionary of the callback object, no call of \<^verbatim>\<open>set_user_attr\<close> follows
  (line 101 of the constructor is the bare expression \<^verbatim>\<open>study.user_attrs\<close>), while the
  study's own key is written at line 151. On a study that no callback has seen: the
  callback is constructed, the experiment of trial 0 is resolved and created, its key is
  in the callback's dictionary, the study has no \<^verbatim>\<open>"trial_experiments"\<close> attribute, and a
  second callback constructed on the same study afterwards knows no key for trial 0.
\<close>

theorem trial_mapping_not_persisted:
  "case CometCallback_init fresh_study None (Some ''general'') None world0 of
     (self, s1, w1) \<Rightarrow>
       (case init_optuna_trial_experiment self s1 trial0 w1 of
          (e, self', w2) \<Rightarrow>
            self_trial_experiments self' 0 = Some ''key1'' \<and>
            trial_experiments (user_attrs s1) = None \<and>
            filter is_set_user_attr (new_events w1 w2) = [] \<and>
            (case CometCallback_init s1 None (Some ''general'') None w2 of
               (other, s2, w3) \<Rightarrow> self_trial_experiments other 0 = None))"
  by (simp add: CometCallback_init_def init_optuna_study_experiment_def init_trial_defs
        input_defs str_nat.simps digit_char_def case_prod_beta)

end
